theory Spec2Isabelle
  imports Main "HOL-Library.Sublist" "HOL-Library.AList"
begin

section \<open>Text primitives of the Python runtime\<close>

text \<open>
  Strings are lists of 8-bit characters and the text operations are those of Python's
  \<^verbatim>\<open>str\<close> on ASCII text: \<^verbatim>\<open>lower\<close> maps the letters A to Z to a to z and keeps
  every other character, \<^verbatim>\<open>strip\<close> removes the white space at both ends, where white
  space is the code points 9 to 13 and 28 to 32. Python's \<^verbatim>\<open>a in b\<close> on strings is
  \<^const>\<open>sublist\<close>, \<^verbatim>\<open>b.endswith(a)\<close> is \<^const>\<open>suffix\<close>.
\<close>

definition lower_char :: "char \<Rightarrow> char" where
  "lower_char c =
     (let n = (of_char c :: nat) in if 65 \<le> n \<and> n \<le> 90 then char_of (n + 32) else c)"

definition lower :: "string \<Rightarrow> string" where
  "lower s = map lower_char s"

definition isspace :: "char \<Rightarrow> bool" where
  "isspace c = (let n = (of_char c :: nat) in (9 \<le> n \<and> n \<le> 13) \<or> (28 \<le> n \<and> n \<le> 32))"

definition strip :: "string \<Rightarrow> string" where
  "strip s = rev (dropWhile isspace (rev (dropWhile isspace s)))"

text \<open>\<^verbatim>\<open>s.endswith((a, b, ...))\<close> with a tuple of suffixes.\<close>

definition endswith :: "string \<Rightarrow> string list \<Rightarrow> bool" where
  "endswith s sufs = list_ex (\<lambda>suf. suffix suf s) sufs"

section \<open>The operating system and the libraries\<close>

text \<open>
  The file system maps a path to what is there. \<^verbatim>\<open>os.path.exists\<close> is true of every
  path that is present; \<^verbatim>\<open>os.listdir\<close> returns the names in a directory and raises
  on a path that is absent or is not a directory.
\<close>

datatype fs_node = Directory "string list" | RegularFile

datatype os_error = FileNotFoundError | NotADirectoryError

text \<open>
  What the program takes from outside itself: the stopword list loaded from the NLTK
  data (\<^verbatim>\<open>english_stop_words\<close>), NLTK's \<^verbatim>\<open>word_tokenize\<close>, the ranked phrases that
  a fresh \<^verbatim>\<open>Rake(stopwords=...)\<close> object reports for a text, the file system, and the
  text that PIL and Tesseract read from the image at a path (\<open>None\<close> when opening or
  recognising the image raises). Logging is not modelled.
\<close>

record env =
  english_stop_words :: "string set"
  word_tokenize :: "string \<Rightarrow> string list"
  rake_ranked_phrases :: "string set \<Rightarrow> string \<Rightarrow> string list"
  files :: "string \<rightharpoonup> fs_node"
  image_to_string :: "string \<rightharpoonup> string"

definition os_path_exists :: "env \<Rightarrow> string \<Rightarrow> bool" where
  "os_path_exists e p = (files e p \<noteq> None)"

definition os_listdir :: "env \<Rightarrow> string \<Rightarrow> os_error + string list" where
  "os_listdir e p =
     (case files e p of
        None \<Rightarrow> Inl FileNotFoundError
      | Some RegularFile \<Rightarrow> Inl NotADirectoryError
      | Some (Directory names) \<Rightarrow> Inr names)"

text \<open>
  \<^verbatim>\<open>os.path.join(a, b)\<close> of \<^verbatim>\<open>posixpath\<close>, for two components. The joined path is
  only handed to the text recognition.
\<close>

definition os_path_join :: "string \<Rightarrow> string \<Rightarrow> string" where
  "os_path_join a b =
     (if prefix ''/'' b then b
      else if a = [] \<or> suffix ''/'' a then a @ b
      else a @ ''/'' @ b)"

section \<open>The keyword matcher\<close>

text \<open>
  \<^verbatim>\<open>extract_text_from_image\<close>: the recognised text, and the empty string when anything
  raised (the \<^verbatim>\<open>except Exception\<close> branch).
\<close>

definition extract_text_from_image :: "env \<Rightarrow> string \<Rightarrow> string" where
  "extract_text_from_image e image_path =
     (case image_to_string e image_path of Some text \<Rightarrow> text | None \<Rightarrow> [])"

definition extract_keywords_from_image :: "env \<Rightarrow> string \<Rightarrow> string list" where
  "extract_keywords_from_image e image_path =
     (let text = extract_text_from_image e image_path
      in if strip text \<noteq> [] then rake_ranked_phrases e (english_stop_words e) text else [])"

definition preprocess_query :: "env \<Rightarrow> string \<Rightarrow> string list" where
  "preprocess_query e query =
     filter (\<lambda>word. word \<notin> english_stop_words e) (word_tokenize e (lower query))"

text \<open>
  The test of line 72:
  \<^verbatim>\<open>any(core_keyword in keyword.lower() for core_keyword in core_keywords for keyword in keywords)\<close>.
\<close>

definition any_keyword_matches :: "string list \<Rightarrow> string list \<Rightarrow> bool" where
  "any_keyword_matches core_keywords keywords =
     list_ex (\<lambda>core_keyword. list_ex (\<lambda>keyword. sublist core_keyword (lower keyword)) keywords)
       core_keywords"

text \<open>
  The values of the returned dictionary: the message under the key \<^verbatim>\<open>error\<close>, or the
  dictionary with the fields \<^verbatim>\<open>image_path\<close> and \<^verbatim>\<open>keywords\<close> of a matched image. The
  dictionary itself is an association list in insertion order, and an assignment
  \<^verbatim>\<open>d[k] = v\<close> is \<^const>\<open>AList.update\<close>.
\<close>

datatype jvalue = Msg string | ImageInfo (image_path_of: string) (keywords_of: "string list")

type_synonym image_dict = "(string \<times> jvalue) list"

text \<open>The body of the loop over \<^verbatim>\<open>os.listdir(image_dir)\<close>, and the loop.\<close>

definition visit_image :: "env \<Rightarrow> string \<Rightarrow> string list \<Rightarrow> string \<Rightarrow> image_dict \<Rightarrow> image_dict" where
  "visit_image e image_dir core_keywords image_file filtered_images =
     (if endswith (lower image_file) [''.png'', ''.jpg'', ''.jpeg''] then
        (let image_path = os_path_join image_dir image_file;
             keywords = extract_keywords_from_image e image_path
         in if any_keyword_matches core_keywords keywords
            then AList.update image_file (ImageInfo (''/images/'' @ image_file) keywords) filtered_images
            else filtered_images)
      else filtered_images)"

fun scan_images :: "env \<Rightarrow> string \<Rightarrow> string list \<Rightarrow> string list \<Rightarrow> image_dict \<Rightarrow> image_dict" where
  "scan_images e image_dir core_keywords [] filtered_images = filtered_images"
| "scan_images e image_dir core_keywords (image_file # rest) filtered_images =
     scan_images e image_dir core_keywords rest
       (visit_image e image_dir core_keywords image_file filtered_images)"

definition filter_images_by_query :: "env \<Rightarrow> string \<Rightarrow> string \<Rightarrow> os_error + image_dict" where
  "filter_images_by_query e image_dir query =
     (let core_keywords = preprocess_query e query
      in if \<not> os_path_exists e image_dir
         then Inr [(''error'', Msg (''Image directory '' @ image_dir @ '' not found''))]
         else (case os_listdir e image_dir of
                 Inl err \<Rightarrow> Inl err
               | Inr names \<Rightarrow> Inr (scan_images e image_dir core_keywords names [])))"

section \<open>An example installation\<close>

text \<open>
  A tokenizer that splits at white space, which is what \<^verbatim>\<open>word_tokenize\<close> returns on
  words of letters separated by blanks.
\<close>

fun split_words :: "string \<Rightarrow> string \<Rightarrow> string list" where
  "split_words w [] = (if w = [] then [] else [w])"
| "split_words w (c # cs) =
     (if isspace c then (if w = [] then split_words [] cs else w # split_words [] cs)
      else split_words (w @ [c]) cs)"

text \<open>
  A directory \<^verbatim>\<open>images\<close> with four images and a text file, and a regular file
  \<^verbatim>\<open>notes.txt\<close> beside it. The image \<^verbatim>\<open>blank.png\<close> has no text, \<^verbatim>\<open>torn.jpeg\<close> cannot
  be opened.
\<close>

definition example_env :: env where
  "example_env =
     \<lparr> english_stop_words = set [''the'', ''a'', ''an'', ''is'', ''of'', ''and'', ''in'', ''to''],
       word_tokenize = split_words [],
       rake_ranked_phrases = (\<lambda>stop text.
          if text = ''Category Theory'' then [''category theory'']
          else if text = ''dog walking'' then [''dog walking'']
          else if text = ''Category Theory of cats'' then [''category theory'', ''cats'']
          else []),
       files = [''images'' \<mapsto> Directory [''Cat.PNG'', ''blank.png'', ''dog.jpg'', ''torn.jpeg'', ''cats.txt''],
                ''notes.txt'' \<mapsto> RegularFile],
       image_to_string = [''images/Cat.PNG'' \<mapsto> ''Category Theory'',
                          ''images/blank.png'' \<mapsto> '' '',
                          ''images/dog.jpg'' \<mapsto> ''dog walking'',
                          ''images/cats.txt'' \<mapsto> ''Category Theory of cats''] \<rparr>"

section \<open>Notions of the specification\<close>



section \<open>Facts about the text primitives\<close>





section \<open>Facts about the example tokenizer\<close>



section \<open>The loop of \<^verbatim>\<open>filter_images_by_query\<close>\<close>


lemma map_of_visit_image:
  "map_of (visit_image e d ck g acc) f =
     (if f = g \<and> endswith (lower f) [''.png'', ''.jpg'', ''.jpeg''] \<and>
         any_keyword_matches ck (extract_keywords_from_image e (os_path_join d f))
      then Some (ImageInfo (''/images/'' @ f) (extract_keywords_from_image e (os_path_join d f)))
      else map_of acc f)"
  by (simp add: visit_image_def Let_def update_conv')

lemma map_of_scan_images:
  "map_of (scan_images e d ck names acc) f =
     (if f \<in> set names \<and> endswith (lower f) [''.png'', ''.jpg'', ''.jpeg''] \<and>
         any_keyword_matches ck (extract_keywords_from_image e (os_path_join d f))
      then Some (ImageInfo (''/images/'' @ f) (extract_keywords_from_image e (os_path_join d f)))
      else map_of acc f)"
proof (induction names arbitrary: acc)
  case Nil
  show ?case by simp
next
  case (Cons g names)
  show ?case
    unfolding scan_images.simps Cons.IH map_of_visit_image by auto
qed

lemma distinct_visit_image:
  "distinct (map fst acc) \<Longrightarrow> distinct (map fst (visit_image e d ck g acc))"
  by (simp add: visit_image_def Let_def distinct_update)

lemma distinct_scan_images:
  "distinct (map fst acc) \<Longrightarrow> distinct (map fst (scan_images e d ck names acc))"
  by (induction names arbitrary: acc) (simp_all add: distinct_visit_image)

lemma filter_images_on_directory:
  "files e d = Some (Directory names) \<Longrightarrow>
   filter_images_by_query e d q = Inr (scan_images e d (preprocess_query e q) names [])"
  by (simp add: filter_images_by_query_def os_path_exists_def os_listdir_def)

lemma keys_scan_images:
  "f \<in> fst ` set (scan_images e d ck names []) \<longleftrightarrow>
     f \<in> set names \<and> endswith (lower f) [''.png'', ''.jpg'', ''.jpeg''] \<and>
     any_keyword_matches ck (extract_keywords_from_image e (os_path_join d f))"
proof -
  have "f \<in> fst ` set (scan_images e d ck names []) \<longleftrightarrow>
        map_of (scan_images e d ck names []) f \<noteq> None"
    by (simp add: map_of_eq_None_iff)
  then show ?thesis
    by (simp add: map_of_scan_images)
qed




lemma extract_keywords_files_update [simp]:
  "extract_keywords_from_image (e\<lparr>files := fs\<rparr>) p = extract_keywords_from_image e p"
  by (simp add: extract_keywords_from_image_def extract_text_from_image_def Let_def)

lemma preprocess_query_files_update [simp]:
  "preprocess_query (e\<lparr>files := fs\<rparr>) q = preprocess_query e q"
  by (simp add: preprocess_query_def)

lemma scan_images_files_update [simp]:
  "scan_images (e\<lparr>files := fs\<rparr>) d ck names acc = scan_images e d ck names acc"
  by (induction names arbitrary: acc) (simp_all add: visit_image_def)

section \<open>The match decision\<close>



section \<open>The query tokens\<close>

text \<open>
  Claim C4, as amended. \<^verbatim>\<open>preprocess_query\<close> returns a list, not a set: the tokens that
  are not stopwords, in the order of the tokenized lower-cased query, each as often as
  it occurs there.
\<close>

theorem preprocess_query_keeps_duplicates:
  "count_list (preprocess_query e query) w =
     (if w \<in> english_stop_words e then 0 else count_list (word_tokenize e (lower query)) w) \<and>
   subseq (preprocess_query e query) (word_tokenize e (lower query))"
proof -
  have "count_list (filter P xs) w = (if P w then count_list xs w else 0)" for P and xs :: "string list"
    by (induction xs) auto
  then show ?thesis
    by (simp add: preprocess_query_def)
qed

text \<open>Claim C4 as stated fails: a token written twice is returned twice.\<close>

theorem preprocess_query_set_counterexample:
  "preprocess_query example_env ''cat Cat'' = [''cat'', ''cat''] \<and>
   \<not> distinct (preprocess_query example_env ''cat Cat'')"
  by code_simp



section \<open>Keywords of an image without text\<close>



section \<open>The entries of the returned dictionary\<close>

lemma filter_images_missing_directory:
  "files e d = None \<Longrightarrow>
   filter_images_by_query e d q = Inr [(''error'', Msg (''Image directory '' @ d @ '' not found''))]"
  by (simp add: filter_images_by_query_def os_path_exists_def)

lemma filter_images_regular_file:
  "files e d = Some RegularFile \<Longrightarrow> filter_images_by_query e d q = Inl NotADirectoryError"
  by (simp add: filter_images_by_query_def os_path_exists_def os_listdir_def)

lemma entries_scan_images:
  assumes "(f, v) \<in> set (scan_images e d ck names [])"
  shows "v = ImageInfo (''/images/'' @ f) (extract_keywords_from_image e (os_path_join d f))"
proof -
  have "distinct (map fst (scan_images e d ck names []))"
    by (rule distinct_scan_images) simp
  with assms have "map_of (scan_images e d ck names []) f = Some v"
    by simp
  then show ?thesis
    by (simp add: map_of_scan_images split: if_splits)
qed

text \<open>
  Claim C9. When the image directory can be listed, every key of the returned dictionary is
  a name of the listing whose lower-cased form ends with .png, .jpg or .jpeg; a file with
  another extension is never a key, whatever its text.
\<close>

theorem result_keys_are_image_files:
  assumes "files e image_dir = Some (Directory names)"
  shows "\<exists>m. filter_images_by_query e image_dir query = Inr m \<and>
           (\<forall>f \<in> fst ` set m. f \<in> set names \<and>
              (suffix ''.png'' (lower f) \<or> suffix ''.jpg'' (lower f) \<or> suffix ''.jpeg'' (lower f)))"
proof -
  have "f \<in> set names \<and>
        (suffix ''.png'' (lower f) \<or> suffix ''.jpg'' (lower f) \<or> suffix ''.jpeg'' (lower f))"
    if "f \<in> fst ` set (scan_images e image_dir (preprocess_query e query) names [])" for f
    using that unfolding keys_scan_images by (simp add: endswith_def)
  with filter_images_on_directory [OF assms] show ?thesis
    by blast
qed

text \<open>
  The theorem on the example: cats.txt holds matching text and is not a key; the only
  key, Cat.PNG, has an image extension.
\<close>

theorem result_keys_are_image_files_witness:
  "files example_env ''images'' =
     Some (Directory [''Cat.PNG'', ''blank.png'', ''dog.jpg'', ''torn.jpeg'', ''cats.txt'']) \<and>
   filter_images_by_query example_env ''images'' ''cats theory'' =
     Inr [(''Cat.PNG'', ImageInfo ''/images/Cat.PNG'' [''category theory''])] \<and>
   any_keyword_matches (preprocess_query example_env ''cats theory'')
     (extract_keywords_from_image example_env (os_path_join ''images'' ''cats.txt'')) \<and>
   (suffix ''.png'' (lower ''Cat.PNG'') \<or> suffix ''.jpg'' (lower ''Cat.PNG'') \<or>
    suffix ''.jpeg'' (lower ''Cat.PNG''))"
proof -
  have dir: "files example_env ''images'' =
     Some (Directory [''Cat.PNG'', ''blank.png'', ''dog.jpg'', ''torn.jpeg'', ''cats.txt''])"
    by code_simp
  have r: "filter_images_by_query example_env ''images'' ''cats theory'' =
     Inr [(''Cat.PNG'', ImageInfo ''/images/Cat.PNG'' [''category theory''])]"
    by code_simp
  have t: "any_keyword_matches (preprocess_query example_env ''cats theory'')
     (extract_keywords_from_image example_env (os_path_join ''images'' ''cats.txt''))"
    by code_simp
  from result_keys_are_image_files [OF dir, of "''cats theory''"] r
  have "suffix ''.png'' (lower ''Cat.PNG'') \<or> suffix ''.jpg'' (lower ''Cat.PNG'') \<or>
    suffix ''.jpeg'' (lower ''Cat.PNG'')"
    by simp
  with dir r t show ?thesis by blast
qed

text \<open>
  Claim C10. The entry of a matched image has the path \<^verbatim>\<open>/images/\<close> followed by its
  key in the field \<^verbatim>\<open>image_path\<close>, and in the field \<^verbatim>\<open>keywords\<close> the keyword list extracted
  from the file of that name in the image directory.
\<close>

theorem matched_entry_fields:
  assumes "filter_images_by_query e image_dir query = Inr m"
      and "(f, ImageInfo p ks) \<in> set m"
  shows "p = ''/images/'' @ f \<and> ks = extract_keywords_from_image e (os_path_join image_dir f)"
proof (cases "files e image_dir")
  case None
  with assms show ?thesis
    by (auto simp: filter_images_missing_directory)
next
  case (Some node)
  show ?thesis
  proof (cases node)
    case (Directory names)
    with Some assms(1) have "m = scan_images e image_dir (preprocess_query e query) names []"
      by (simp add: filter_images_on_directory)
    with assms(2) entries_scan_images show ?thesis
      by blast
  next
    case RegularFile
    with Some assms(1) show ?thesis
      by (simp add: filter_images_regular_file)
  qed
qed

text \<open>The theorem on the entry of dog.jpg for the example query "walk theory".\<close>

theorem matched_entry_fields_witness:
  "filter_images_by_query example_env ''images'' ''walk theory'' =
     Inr [(''Cat.PNG'', ImageInfo ''/images/Cat.PNG'' [''category theory'']),
          (''dog.jpg'', ImageInfo ''/images/dog.jpg'' [''dog walking''])] \<and>
   ''/images/dog.jpg'' = ''/images/'' @ ''dog.jpg'' \<and>
   [''dog walking''] = extract_keywords_from_image example_env (os_path_join ''images'' ''dog.jpg'')"
proof -
  have r: "filter_images_by_query example_env ''images'' ''walk theory'' =
     Inr [(''Cat.PNG'', ImageInfo ''/images/Cat.PNG'' [''category theory'']),
          (''dog.jpg'', ImageInfo ''/images/dog.jpg'' [''dog walking''])]"
    by code_simp
  have i: "(''dog.jpg'', ImageInfo ''/images/dog.jpg'' [''dog walking'']) \<in>
      set [(''Cat.PNG'', ImageInfo ''/images/Cat.PNG'' [''category theory'']),
           (''dog.jpg'', ImageInfo ''/images/dog.jpg'' [''dog walking''])]"
    by simp
  from matched_entry_fields [OF r i] r show ?thesis by simp
qed

section \<open>Documents that do not match\<close>








section \<open>Failure\<close>




section \<open>What the keywords depend on\<close>

text \<open>
  The keyword list of an image is a function of its extracted text and of the ranking
  library: neither the path nor the rest of the environment enters. The order of the
  phrases, and the order among phrases of equal score, is the library's.
\<close>

lemma extract_keywords_depends_on_text:
  assumes "extract_text_from_image e1 p1 = extract_text_from_image e2 p2"
      and "english_stop_words e1 = english_stop_words e2"
      and "rake_ranked_phrases e1 = rake_ranked_phrases e2"
  shows "extract_keywords_from_image e1 p1 = extract_keywords_from_image e2 p2"
  unfolding extract_keywords_from_image_def assms ..

end
